theory Spec2Isabelle
  imports Main
begin

section \<open>The task store of main.go\<close>

text \<open>
  The program keeps one package-level slice \<open>TodoList\<close> of \<open>Todo\<close> structs and
  five resolver closures that read or mutate it. Each resolver is modelled as a
  function of the current slice and of the argument map \<open>params.Args\<close>; the two
  mutations return the new slice next to their result.
\<close>

subsection \<open>Data\<close>

text \<open>The struct \<open>Todo\<close> (main.go, lines 13-18).\<close>

record Todo =
  ID :: string
  Text :: string
  Done :: bool
  Task :: string

text \<open>
  A value of Go's empty interface, as far as this program puts values into one:
  the arguments of a request are strings and booleans (or anything else), the
  results are a \<open>Todo\<close> or a \<open>[]Todo\<close>.
\<close>

datatype iface =
  StringV string
  | BoolV bool
  | OtherV
  | TodoV Todo
  | TodoListV "Todo list"

text \<open>\<open>params.Args\<close> is a \<open>map[string]interface{}\<close>; a missing key reads as nil.\<close>

type_synonym args = "string \<rightharpoonup> iface"

text \<open>
  The second component of a resolver's return, Go's \<open>error\<close>; nil is \<open>None\<close>.
  No resolver of main.go ever builds one.
\<close>

datatype error = Error string

text \<open>A run-time panic of the Go program.\<close>

datatype panic = IndexOutOfRange

type_synonym result = "panic + (iface \<times> error option)"

text \<open>The zero value \<open>Todo{}\<close>.\<close>

definition zeroTodo :: Todo where
  "zeroTodo = \<lparr>ID = '''', Text = '''', Done = False, Task = ''''\<rparr>"

text \<open>
  The two-valued type assertions \<open>v, ok := x.(string)\<close> and \<open>v, ok := x.(bool)\<close>:
  the zero value and \<open>false\<close> when \<open>x\<close> is nil or holds another type.
\<close>

fun assert_string :: "iface option \<Rightarrow> string \<times> bool" where
  "assert_string (Some (StringV s)) = (s, True)"
| "assert_string _ = ('''', False)"

fun assert_bool :: "iface option \<Rightarrow> bool \<times> bool" where
  "assert_bool (Some (BoolV b)) = (b, True)"
| "assert_bool _ = (False, False)"

subsection \<open>Start-up\<close>

text \<open>\<open>init\<close> (lines 31-38) appends three records to the slice; their \<open>Task\<close> field
  is not given and so is the empty string. The seeding of the random generator has no
  effect on the slice.\<close>

definition init :: "Todo list \<Rightarrow> Todo list" where
  "init TodoList =
     (let todo1 = \<lparr>ID = ''a'', Text = ''A todo not to forget'', Done = False, Task = ''''\<rparr>;
          todo2 = \<lparr>ID = ''b'', Text = ''This is the most important'', Done = False, Task = ''''\<rparr>;
          todo3 = \<lparr>ID = ''c'', Text = ''Please do this or else'', Done = False, Task = ''''\<rparr>
      in TodoList @ [todo1, todo2, todo3])"

text \<open>The slice is declared without a value (line 20), so the program starts from
  \<open>init\<close> applied to the nil slice.\<close>

definition start :: "Todo list" where
  "start = init []"

subsection \<open>Mutations\<close>

text \<open>
  \<open>createTodo\<close> (lines 79-102). The record is built from the two asserted
  arguments with the literal identifier and \<open>Done: true\<close>, appended to the slice,
  and the slice itself is returned with a nil error. The \<open>fmt.Println\<close> writes
  to standard output only.
\<close>

definition createTodo :: "Todo list \<Rightarrow> args \<Rightarrow> Todo list \<times> result" where
  "createTodo TodoList Args =
     (let text = fst (assert_string (Args ''text''));
          task = fst (assert_string (Args ''task''));
          newTodo = \<lparr>ID = ''id0001'', Text = text, Done = True, Task = task\<rparr>;
          TodoList' = TodoList @ [newTodo]
      in (TodoList', Inr (TodoListV TodoList', None)))"

text \<open>
  The loop of \<open>updateTodo\<close> (lines 124-131), from index \<open>i\<close> on: the first record
  whose \<open>ID\<close> equals the argument gets its \<open>Done\<close> field assigned and is copied
  into \<open>affectedTodo\<close>, and the loop breaks.
\<close>

function updateTodo_loop ::
  "Todo list \<Rightarrow> string \<Rightarrow> bool \<Rightarrow> nat \<Rightarrow> Todo \<Rightarrow> Todo list \<times> Todo" where
  "updateTodo_loop TodoList id' done' i affectedTodo =
     (if i < length TodoList then
        (if ID (TodoList ! i) = id' then
           (let TodoList' = TodoList[i := (TodoList ! i)\<lparr>Done := done'\<rparr>]
            in (TodoList', TodoList' ! i))
         else updateTodo_loop TodoList id' done' (Suc i) affectedTodo)
      else (TodoList, affectedTodo))"
  by pat_completeness auto
termination
  by (relation "measure (\<lambda>(TodoList, id', done', i, affectedTodo). length TodoList - i)") auto

declare updateTodo_loop.simps [simp del]

text \<open>\<open>updateTodo\<close> (lines 117-134).\<close>

definition updateTodo :: "Todo list \<Rightarrow> args \<Rightarrow> Todo list \<times> result" where
  "updateTodo TodoList Args =
     (let done' = fst (assert_bool (Args ''done''));
          id' = fst (assert_string (Args ''id''));
          affectedTodo = zeroTodo;
          (TodoList', affectedTodo') = updateTodo_loop TodoList id' done' 0 affectedTodo
      in (TodoList', Inr (TodoV affectedTodo', None)))"

subsection \<open>Queries\<close>

text \<open>The \<open>range\<close> loop of \<open>todo\<close> (lines 163-167): the first record with the
  identifier, if any.\<close>

fun todo_range :: "Todo list \<Rightarrow> string \<Rightarrow> Todo option" where
  "todo_range [] idQuery = None"
| "todo_range (todo # rest) idQuery =
     (if ID todo = idQuery then Some todo else todo_range rest idQuery)"

text \<open>\<open>todo\<close> (lines 158-171).\<close>

definition todo :: "Todo list \<Rightarrow> args \<Rightarrow> result" where
  "todo TodoList Args =
     (let (idQuery, isOK) = assert_string (Args ''id'')
      in case (if isOK then todo_range TodoList idQuery else None) of
           Some t \<Rightarrow> Inr (TodoV t, None)
         | None \<Rightarrow> Inr (TodoV zeroTodo, None))"


text \<open>\<open>todoList\<close> (lines 188-190).\<close>

definition todoList :: "Todo list \<Rightarrow> result" where
  "todoList TodoList = Inr (TodoListV TodoList, None)"

subsection \<open>Sequences of requests\<close>

text \<open>One request to the schema: the field that is resolved, with its arguments.\<close>

datatype request =
  CreateTodo args
  | UpdateTodo args
  | TodoQuery args
  | LastTodo
  | TodoListQuery

text \<open>The slice after one request, and after a sequence of them.\<close>

fun step :: "Todo list \<Rightarrow> request \<Rightarrow> Todo list" where
  "step TodoList (CreateTodo Args) = fst (createTodo TodoList Args)"
| "step TodoList (UpdateTodo Args) = fst (updateTodo TodoList Args)"
| "step TodoList (TodoQuery Args) = TodoList"
| "step TodoList LastTodo = TodoList"
| "step TodoList TodoListQuery = TodoList"

fun run :: "Todo list \<Rightarrow> request list \<Rightarrow> Todo list" where
  "run TodoList [] = TodoList"
| "run TodoList (r # rs) = run (step TodoList r) rs"

text \<open>The records that the \<open>createTodo\<close> calls of a sequence build, in call order.\<close>

fun created :: "request list \<Rightarrow> Todo list" where
  "created [] = []"
| "created (CreateTodo Args # rs) =
     \<lparr>ID = ''id0001'', Text = fst (assert_string (Args ''text'')), Done = True,
      Task = fst (assert_string (Args ''task''))\<rparr> # created rs"
| "created (_ # rs) = created rs"

text \<open>The fields of a record that no resolver assigns after creation.\<close>

definition fixed_fields :: "Todo \<Rightarrow> string \<times> string \<times> string" where
  "fixed_fields t = (ID t, Text t, Task t)"

text \<open>A resolver returned normally and its \<open>error\<close> is nil.\<close>

definition nil_error :: "result \<Rightarrow> bool" where
  "nil_error r = (case r of Inr (v, None) \<Rightarrow> True | _ \<Rightarrow> False)"

section \<open>Properties of the resolvers\<close>

subsection \<open>The two search loops\<close>

lemma updateTodo_loop_miss:
  "\<forall>t \<in> set TodoList. ID t \<noteq> id' \<Longrightarrow>
   updateTodo_loop TodoList id' done' i affectedTodo = (TodoList, affectedTodo)"
proof (induction TodoList id' done' i affectedTodo rule: updateTodo_loop.induct)
  case (1 TodoList id' done' i affectedTodo)
  show ?case
  proof (cases "i < length TodoList")
    case True
    then have "ID (TodoList ! i) \<noteq> id'" using "1.prems" by simp
    with True "1.IH" "1.prems" show ?thesis
      by (subst updateTodo_loop.simps) simp
  next
    case False
    then show ?thesis by (subst updateTodo_loop.simps) simp
  qed
qed

lemma updateTodo_loop_first:
  assumes "\<forall>x \<in> set pre. ID x \<noteq> id'" and "ID t = id'" and "i \<le> length pre"
  shows "updateTodo_loop (pre @ t # post) id' done' i affectedTodo =
         (pre @ t\<lparr>Done := done'\<rparr> # post, t\<lparr>Done := done'\<rparr>)"
  using assms
proof (induction "length pre - i" arbitrary: i)
  case 0
  then have i: "i = length pre" by simp
  show ?case using "0.prems"(2)
    by (subst updateTodo_loop.simps) (simp add: i Let_def nth_append list_update_append)
next
  case (Suc n)
  then have lt: "i < length pre" by simp
  then have ne: "ID ((pre @ t # post) ! i) \<noteq> id'"
    using Suc.prems(1) by (simp add: nth_append)
  have "updateTodo_loop (pre @ t # post) id' done' (Suc i) affectedTodo =
        (pre @ t\<lparr>Done := done'\<rparr> # post, t\<lparr>Done := done'\<rparr>)"
    using Suc.hyps(1)[of "Suc i"] Suc.hyps(2) Suc.prems lt by simp
  with lt ne show ?case
    by (subst updateTodo_loop.simps) simp
qed

lemma todo_range_miss:
  "\<forall>t \<in> set TodoList. ID t \<noteq> idQuery \<Longrightarrow> todo_range TodoList idQuery = None"
  by (induction TodoList) auto

lemma todo_range_first:
  "\<forall>x \<in> set pre. ID x \<noteq> idQuery \<Longrightarrow> ID t = idQuery \<Longrightarrow>
   todo_range (pre @ t # post) idQuery = Some t"
  by (induction pre) auto

lemma updateTodo_loop_cases:
  "(updateTodo_loop TodoList id' done' 0 affectedTodo = (TodoList, affectedTodo) \<and>
      (\<forall>t \<in> set TodoList. ID t \<noteq> id')) \<or>
   (\<exists>pre t post. TodoList = pre @ t # post \<and> (\<forall>x \<in> set pre. ID x \<noteq> id') \<and> ID t = id' \<and>
      updateTodo_loop TodoList id' done' 0 affectedTodo =
        (pre @ t\<lparr>Done := done'\<rparr> # post, t\<lparr>Done := done'\<rparr>))"
proof (cases "\<exists>t \<in> set TodoList. ID t = id'")
  case True
  then obtain pre t post where d: "TodoList = pre @ t # post" "ID t = id'"
      "\<forall>x \<in> set pre. ID x \<noteq> id'"
    using split_list_first_prop[of TodoList "\<lambda>t. ID t = id'"] by blast
  then show ?thesis
    using updateTodo_loop_first[of pre id' t 0 post done' affectedTodo] by blast
next
  case False
  then show ?thesis using updateTodo_loop_miss[of TodoList id'] by blast
qed

lemma updateTodo_fixed_fields:
  "map fixed_fields (fst (updateTodo TodoList Args)) = map fixed_fields TodoList"
proof -
  let ?i = "fst (assert_string (Args ''id''))" and ?d = "fst (assert_bool (Args ''done''))"
  from updateTodo_loop_cases[of TodoList ?i ?d zeroTodo]
  show ?thesis
    by (auto simp: updateTodo_def Let_def fixed_fields_def)
qed

lemma updateTodo_length:
  "length (fst (updateTodo TodoList Args)) = length TodoList"
  using arg_cong[OF updateTodo_fixed_fields[of TodoList Args], of length] by simp

lemma step_fixed_fields:
  "map fixed_fields (step TodoList r) = map fixed_fields TodoList @ map fixed_fields (created [r])"
  by (cases r) (simp_all add: updateTodo_fixed_fields createTodo_def Let_def)

lemma created_Cons: "created (r # rs) = created [r] @ created rs"
  by (cases r) simp_all

lemma run_fixed_fields:
  "map fixed_fields (run TodoList rs) = map fixed_fields TodoList @ map fixed_fields (created rs)"
proof (induction rs arbitrary: TodoList)
  case Nil
  then show ?case by simp
next
  case (Cons r rs)
  have "map fixed_fields (run TodoList (r # rs)) =
        map fixed_fields (step TodoList r) @ map fixed_fields (created rs)"
    using Cons.IH[of "step TodoList r"] by simp
  also have "\<dots> = map fixed_fields TodoList @ map fixed_fields (created (r # rs))"
    by (simp add: step_fixed_fields created_Cons[of r rs])
  finally show ?case .
qed

lemma run_length: "length (run TodoList rs) = length TodoList + length (created rs)"
  using arg_cong[OF run_fixed_fields[of TodoList rs], of length] by simp


lemma start_records:
  "start = [\<lparr>ID = ''a'', Text = ''A todo not to forget'', Done = False, Task = ''''\<rparr>,
            \<lparr>ID = ''b'', Text = ''This is the most important'', Done = False, Task = ''''\<rparr>,
            \<lparr>ID = ''c'', Text = ''Please do this or else'', Done = False, Task = ''''\<rparr>]"
  by (simp add: start_def init_def)

lemma createTodo_created:
  "fst (createTodo TodoList Args) = TodoList @ created [CreateTodo Args]"
  by (simp add: createTodo_def Let_def)

lemma createTodo_nil_error: "nil_error (snd (createTodo TodoList Args))"
  by (simp add: createTodo_def Let_def nil_error_def)

text \<open>
  On the first record with the identifier, an update followed by the query gives that
  record with the new \<open>Done\<close> and its other fields as they were.
\<close>

lemma updateTodo_todo_first:
  assumes "Args ''id'' = Some (StringV id')"
    and "\<forall>x \<in> set pre. ID x \<noteq> id'"
    and "ID t = id'"
  shows "todo (fst (updateTodo (pre @ t # post) Args)) [''id'' \<mapsto> StringV id'] =
         Inr (TodoV (t\<lparr>Done := fst (assert_bool (Args ''done''))\<rparr>), None)"
  using assms
  by (simp add: updateTodo_def Let_def updateTodo_loop_first todo_def todo_range_first)

subsection \<open>Creating a record\<close>

text \<open>
  C1. Every record that \<open>createTodo\<close> stores should carry an identifier that no other
  record of the store has. The resolver writes the literal \<open>id0001\<close> into every
  record: after two calls from the start state the fourth and the fifth record have
  the same identifier.
\<close>

theorem createTodo_identifier_collision:
  "map ID (run start
      [CreateTodo [''text'' \<mapsto> StringV ''x'', ''task'' \<mapsto> StringV ''p''],
       CreateTodo [''text'' \<mapsto> StringV ''y'', ''task'' \<mapsto> StringV ''q'']])
     = [''a'', ''b'', ''c'', ''id0001'', ''id0001''] \<and>
   \<not> distinct (map ID (run start
      [CreateTodo [''text'' \<mapsto> StringV ''x'', ''task'' \<mapsto> StringV ''p''],
       CreateTodo [''text'' \<mapsto> StringV ''y'', ''task'' \<mapsto> StringV ''q'']]))"
  by (simp add: start_def init_def createTodo_def Let_def)

text \<open>
  C2. The record that \<open>createTodo\<close> stores should have \<open>Done\<close> false. For the text
  \<open>Buy milk\<close> and an empty task the stored record has \<open>Done\<close> true.
\<close>

theorem createTodo_stores_done_true:
  "fst (createTodo start [''text'' \<mapsto> StringV ''Buy milk'', ''task'' \<mapsto> StringV ''''])
     = start @ [\<lparr>ID = ''id0001'', Text = ''Buy milk'', Done = True, Task = ''''\<rparr>]"
  by (simp add: createTodo_def Let_def)

text \<open>
  C8. The value that \<open>createTodo\<close> returns should be the one record just stored. The
  resolver returns the whole slice: the three records of the start state followed by
  the new one.
\<close>

theorem createTodo_returns_slice:
  "snd (createTodo start [''text'' \<mapsto> StringV ''Walk dog'', ''task'' \<mapsto> StringV ''home''])
     = Inr (TodoListV (start @
         [\<lparr>ID = ''id0001'', Text = ''Walk dog'', Done = True, Task = ''home''\<rparr>]), None)"
  by (simp add: createTodo_def Let_def)

text \<open>
  C5, as amended. A call of \<open>createTodo\<close> whose text is the empty string does not
  fail: the error is nil, and the slice is the old one followed by one new record
  whose \<open>Text\<close> is empty.
\<close>

theorem createTodo_empty_text_appends:
  "Args ''text'' = Some (StringV '''') \<Longrightarrow>
   nil_error (snd (createTodo TodoList Args)) \<and>
   length (fst (createTodo TodoList Args)) = length TodoList + 1 \<and>
   butlast (fst (createTodo TodoList Args)) = TodoList \<and>
   Text (last (fst (createTodo TodoList Args))) = ''''"
  by (simp add: createTodo_def Let_def nil_error_def)

theorem createTodo_empty_text_appends_witness:
  "[''text'' \<mapsto> StringV ''''] ''text'' = Some (StringV '''') \<and>
   nil_error (snd (createTodo [] [''text'' \<mapsto> StringV ''''])) \<and>
   length (fst (createTodo [] [''text'' \<mapsto> StringV ''''])) = length ([] :: Todo list) + 1 \<and>
   butlast (fst (createTodo [] [''text'' \<mapsto> StringV ''''])) = [] \<and>
   Text (last (fst (createTodo [] [''text'' \<mapsto> StringV '''']))) = ''''"
  using createTodo_empty_text_appends[of "[''text'' \<mapsto> StringV '''']" "[]"] by simp

text \<open>
  C5 as stated fails: with the empty text and the task \<open>x\<close> the call returns a nil
  error and the slice has a fourth record.
\<close>

theorem createTodo_empty_text_accepted:
  "nil_error (snd (createTodo start [''text'' \<mapsto> StringV '''', ''task'' \<mapsto> StringV ''x''])) \<and>
   fst (createTodo start [''text'' \<mapsto> StringV '''', ''task'' \<mapsto> StringV ''x''])
     = start @ [\<lparr>ID = ''id0001'', Text = '''', Done = True, Task = ''x''\<rparr>]"
  by (simp add: createTodo_def Let_def nil_error_def)

subsection \<open>Updating a record\<close>

text \<open>
  C3, as amended. For an identifier that no record of the slice has, \<open>updateTodo\<close>
  returns the zero-valued record with a nil error and leaves the slice as it was.
\<close>

theorem updateTodo_miss_zero_record:
  "\<forall>t \<in> set TodoList. ID t \<noteq> id' \<Longrightarrow> Args ''id'' = Some (StringV id') \<Longrightarrow>
   updateTodo TodoList Args = (TodoList, Inr (TodoV zeroTodo, None))"
  by (simp add: updateTodo_def updateTodo_loop_miss)

theorem updateTodo_miss_zero_record_witness:
  "list_all (\<lambda>t. ID t \<noteq> ''zzz'') start \<and>
   [''id'' \<mapsto> StringV ''zzz''] ''id'' = Some (StringV ''zzz'') \<and>
   updateTodo start [''id'' \<mapsto> StringV ''zzz''] = (start, Inr (TodoV zeroTodo, None))"
proof -
  have h: "\<forall>t \<in> set start. ID t \<noteq> ''zzz''"
    by (simp add: start_def init_def)
  have a: "[''id'' \<mapsto> StringV ''zzz''] ''id'' = Some (StringV ''zzz'')"
    by simp
  show ?thesis
    using h a
      updateTodo_miss_zero_record[of start "''zzz''" "[''id'' \<mapsto> StringV ''zzz'']"]
    by (simp add: list_all_iff)
qed

text \<open>
  C3 as stated fails: the update of the identifier \<open>nonexistent\<close> to done returns
  with a nil error, and its value is the zero-valued record.
\<close>

theorem updateTodo_miss_no_error:
  "nil_error (snd (updateTodo start
      [''id'' \<mapsto> StringV ''nonexistent'', ''done'' \<mapsto> BoolV True])) \<and>
   updateTodo start [''id'' \<mapsto> StringV ''nonexistent'', ''done'' \<mapsto> BoolV True]
     = (start, Inr (TodoV zeroTodo, None))"
  by (simp add: updateTodo_def start_def init_def Let_def updateTodo_loop.simps nil_error_def)

text \<open>
  C10. \<open>updateTodo\<close> assigns \<open>Done\<close> in the first record, in the order of the slice,
  whose \<open>ID\<close> equals the argument and in no other: the records before it, and all
  records after it, those with the same identifier among them, stay as they were.
  The value returned is the updated record.
\<close>

theorem updateTodo_first_match_only:
  assumes "Args ''id'' = Some (StringV id')"
    and "\<forall>x \<in> set pre. ID x \<noteq> id'"
    and "ID t = id'"
  shows "updateTodo (pre @ t # post) Args =
     (pre @ t\<lparr>Done := fst (assert_bool (Args ''done''))\<rparr> # post,
      Inr (TodoV (t\<lparr>Done := fst (assert_bool (Args ''done''))\<rparr>), None))"
  using assms by (simp add: updateTodo_def Let_def updateTodo_loop_first)

theorem updateTodo_first_match_only_witness:
  "[''id'' \<mapsto> StringV ''id0001'', ''done'' \<mapsto> BoolV False] ''id'' = Some (StringV ''id0001'') \<and>
   list_all (\<lambda>x. ID x \<noteq> ''id0001'') start \<and>
   ID \<lparr>ID = ''id0001'', Text = ''x'', Done = True, Task = ''p''\<rparr> = ''id0001'' \<and>
   updateTodo (start @ \<lparr>ID = ''id0001'', Text = ''x'', Done = True, Task = ''p''\<rparr>
                 # [\<lparr>ID = ''id0001'', Text = ''y'', Done = True, Task = ''q''\<rparr>])
       [''id'' \<mapsto> StringV ''id0001'', ''done'' \<mapsto> BoolV False] =
     (start @ \<lparr>ID = ''id0001'', Text = ''x'', Done = False, Task = ''p''\<rparr>
                 # [\<lparr>ID = ''id0001'', Text = ''y'', Done = True, Task = ''q''\<rparr>],
      Inr (TodoV \<lparr>ID = ''id0001'', Text = ''x'', Done = False, Task = ''p''\<rparr>, None))"
proof -
  let ?A = "[''id'' \<mapsto> StringV ''id0001'', ''done'' \<mapsto> BoolV False]"
  let ?t = "\<lparr>ID = ''id0001'', Text = ''x'', Done = True, Task = ''p''\<rparr>"
  have h1: "?A ''id'' = Some (StringV ''id0001'')" by simp
  have h2: "\<forall>x \<in> set start. ID x \<noteq> ''id0001''"
    by (simp add: start_def init_def)
  have h3: "ID ?t = ''id0001''" by simp
  show ?thesis
    using h1 h2 h3
      updateTodo_first_match_only[of ?A "''id0001''" start ?t
        "[\<lparr>ID = ''id0001'', Text = ''y'', Done = True, Task = ''q''\<rparr>]"]
    by (simp add: list_all_iff)
qed

text \<open>
  C7. For every record of the store with identifier \<open>id\<close>, an update of \<open>id\<close> to done
  followed by the query for \<open>id\<close> should return a record with \<open>Done\<close> true and with
  the identifier, text and task of that record. After two calls of \<open>createTodo\<close> the
  store holds the record with text \<open>y\<close> and task \<open>q\<close> under \<open>id0001\<close>, and the update
  followed by the query returns the record with text \<open>x\<close> and task \<open>p\<close>.
\<close>

theorem updateTodo_todo_duplicate_identifier:
  "\<lparr>ID = ''id0001'', Text = ''y'', Done = True, Task = ''q''\<rparr>
     \<in> set (run start
         [CreateTodo [''text'' \<mapsto> StringV ''x'', ''task'' \<mapsto> StringV ''p''],
          CreateTodo [''text'' \<mapsto> StringV ''y'', ''task'' \<mapsto> StringV ''q'']]) \<and>
   todo (fst (updateTodo
        (run start
          [CreateTodo [''text'' \<mapsto> StringV ''x'', ''task'' \<mapsto> StringV ''p''],
           CreateTodo [''text'' \<mapsto> StringV ''y'', ''task'' \<mapsto> StringV ''q'']])
        [''id'' \<mapsto> StringV ''id0001'', ''done'' \<mapsto> BoolV True]))
     [''id'' \<mapsto> StringV ''id0001'']
    = Inr (TodoV \<lparr>ID = ''id0001'', Text = ''x'', Done = True, Task = ''p''\<rparr>, None)"
  by (simp add: start_def init_def createTodo_def Let_def updateTodo_def
      updateTodo_loop.simps todo_def)

subsection \<open>Queries\<close>

text \<open>
  C9. For an identifier that no record of the slice has, the query \<open>todo\<close> returns the
  zero-valued record with a nil error; it returns the same when the argument \<open>id\<close>
  is not given.
\<close>

theorem todo_miss_zero_record:
  "(Args ''id'' = Some (StringV idQuery) \<and> (\<forall>t \<in> set TodoList. ID t \<noteq> idQuery)
      \<longrightarrow> todo TodoList Args = Inr (TodoV zeroTodo, None)) \<and>
   (Args' ''id'' = None \<longrightarrow> todo TodoList Args' = Inr (TodoV zeroTodo, None))"
  by (simp add: todo_def todo_range_miss)

theorem todo_miss_zero_record_witness:
  "([''id'' \<mapsto> StringV ''d''] ''id'' = Some (StringV ''d'') \<and>
    list_all (\<lambda>t. ID t \<noteq> ''d'') start \<and>
    todo start [''id'' \<mapsto> StringV ''d''] = Inr (TodoV zeroTodo, None)) \<and>
   ((Map.empty :: args) ''id'' = None \<and>
    todo start Map.empty = Inr (TodoV zeroTodo, None))"
  using todo_miss_zero_record[of "[''id'' \<mapsto> StringV ''d'']" "''d''" start Map.empty]
  by (simp add: start_def init_def)



text \<open>
  C6, as amended. After any sequence of requests \<open>todoList\<close> returns the slice, whose
  length is three, for the records of \<open>init\<close>, plus the number of \<open>createTodo\<close> calls
  made so far; the identifiers, texts and tasks are those of the three start records
  followed by those of the created records in call order.
\<close>

theorem todoList_after_run:
  "todoList (run start rs) = Inr (TodoListV (run start rs), None) \<and>
   length (run start rs) = 3 + length (created rs) \<and>
   map fixed_fields (run start rs) = map fixed_fields (start @ created rs)"
  by (simp add: todoList_def run_length run_fixed_fields) (simp add: start_def init_def)

text \<open>
  C6 as stated fails: before any \<open>createTodo\<close> call the list returned has three
  records.
\<close>

theorem todoList_counts_seeded:
  "todoList (run start []) = Inr (TodoListV start, None) \<and> length start = 3 \<and>
   length (created []) = 0"
  by (simp add: todoList_def start_def init_def)

end
